theory Spec2Isabelle
  imports Main
begin

section \<open>Data model\<close>

text \<open>
  A value thrown by JavaScript code: an \<open>Error\<close> object is its \<open>name\<close> and its
  \<open>message\<close>. \<open>new Error(m)\<close> is \<open>Thrown ''Error'' m\<close>; the rejection caused by an
  aborted \<open>AbortController\<close> has the name \<open>AbortError\<close>.
\<close>

datatype thrown = Thrown (err_name: string) (err_message: string)

text \<open>The \<open>{uci, san}\<close> pair that the wire format uses for a move.\<close>

record Move =
  uci :: string
  san :: string

datatype Actor = player | engine

record MoveRecord =
  mr_ply :: nat
  mr_actor :: Actor
  mr_uci :: string
  mr_san :: string
  mr_transcript :: "string option"
  mr_timestamp :: string

record SessionState =
  session_id :: string
  ss_fen :: string
  ss_moves :: "MoveRecord list"

text \<open>
  \<open>TurnResponse\<close>. The interface declares every field as present, but
  \<open>submitTurnStream\<close> fills three of them with \<open>data.transcript!\<close>, \<open>data.user_move!\<close>
  and \<open>data.engine_move!\<close>: the \<open>!\<close> is erased at compile time, so the value stored is
  whatever the event carried, possibly \<open>undefined\<close> (\<open>None\<close>).
\<close>

record TurnResponse =
  tr_transcript :: "string option"
  tr_user_move :: "Move option"
  tr_engine_move :: "Move option"
  tr_fen :: string
  tr_moves :: "MoveRecord list"

datatype Status =
  Transcribing | Transcribed | Interpreting | PlayerMoved | EngineThinking | Complete | Error

record StreamUpdate =
  su_status :: Status
  su_transcript :: "string option"
  su_move :: "Move option"
  su_user_move :: "Move option"
  su_engine_move :: "Move option"
  su_fen :: "string option"
  su_error :: "string option"

section \<open>JavaScript string operations used by the client\<close>

text \<open>Truthiness of an optional string: \<open>undefined\<close> and \<open>""\<close> are falsy.\<close>

fun truthy :: "string option \<Rightarrow> bool" where
  "truthy None = False"
| "truthy (Some s) = (s \<noteq> [])"

text \<open>\<open>a || b\<close> for an optional string \<open>a\<close> and a string \<open>b\<close>.\<close>

fun or_else :: "string option \<Rightarrow> string \<Rightarrow> string" where
  "or_else None b = b"
| "or_else (Some s) b = (if s = [] then b else s)"

definition newline :: char where
  "newline = CHR 0x0A"

text \<open>\<open>chunk.split('\n')\<close>: the pieces between newlines; the empty string gives one empty piece.\<close>

fun split_nl :: "string \<Rightarrow> string list" where
  "split_nl [] = [[]]"
| "split_nl (c # cs) =
     (if c = newline then [] # split_nl cs
      else (case split_nl cs of
              [] \<Rightarrow> [[c]]
            | l # ls \<Rightarrow> (c # l) # ls))"

definition startsWith :: "string \<Rightarrow> string \<Rightarrow> bool" where
  "startsWith s p = (take (length p) s = p)"

definition endsWith :: "string \<Rightarrow> string \<Rightarrow> bool" where
  "endsWith s p = (length p \<le> length s \<and> drop (length s - length p) s = p)"

fun includes_str :: "string \<Rightarrow> string \<Rightarrow> bool" where
  "includes_str [] p = (p = [])"
| "includes_str (c # cs) p = (startsWith (c # cs) p \<or> includes_str cs p)"

section \<open>The response stream\<close>

text \<open>
  What successive \<open>reader.read()\<close> calls produce: a chunk (already passed through
  \<open>decoder.decode\<close>, so a string), or a rejection (a network failure, or the abort of the
  request's \<open>AbortController\<close>). When the events are used up the stream is done.
\<close>

datatype read_event = Chunk string | ReadFails thrown

datatype reader = Reader (locked: bool) (source: "read_event list")

definition getReader :: "read_event list \<Rightarrow> reader" where
  "getReader src = Reader True src"

fun releaseLock :: "reader \<Rightarrow> reader" where
  "releaseLock (Reader l src) = Reader False src"

text \<open>\<open>await reader.read()\<close>: \<open>Inr None\<close> is \<open>{done: true}\<close>, \<open>Inr (Some v)\<close> a value, \<open>Inl\<close> a rejection.\<close>

fun read :: "reader \<Rightarrow> (thrown + string option) \<times> reader" where
  "read (Reader l []) = (Inr None, Reader l [])"
| "read (Reader l (Chunk v # rest)) = (Inr (Some v), Reader l rest)"
| "read (Reader l (ReadFails e # rest)) = (Inl e, Reader l rest)"

record response =
  ok :: bool
  statusText :: string
  detail :: "string option"
  body :: "read_event list option"

datatype fetch_outcome = Rejected thrown | Responded response

section \<open>submitTurnStream\<close>

text \<open>
  The mutable state of one call: the state the caller's \<open>onUpdate\<close> handler works on,
  the local \<open>finalResult\<close>, and the calls made to \<open>console.error\<close> (the line and the
  value caught).
\<close>

record 'h progress =
  handler :: 'h
  finalResult :: "TurnResponse option"
  console :: "(string \<times> thrown) list"

text \<open>
  The body of the inner \<open>try\<close> (lines 101 to 114) for one line that starts with the marker.
  \<open>JSON_parse\<close> is the built-in with the cast to \<open>StreamUpdate\<close>; it is a parameter, and
  \<open>Inl\<close> is the exception it throws. \<open>onUpdate\<close> is the caller's handler, a state
  transformer that returns normally (as \<open>handleStreamUpdate\<close>, the only handler passed,
  does). The result is the exception that leaves the \<open>try\<close> body, if any, and the
  state at that point.
\<close>

definition try_line ::
  "(string \<Rightarrow> thrown + StreamUpdate) \<Rightarrow> (StreamUpdate \<Rightarrow> 'h \<Rightarrow> 'h) \<Rightarrow> string \<Rightarrow>
   'h progress \<Rightarrow> thrown option \<times> 'h progress" where
  "try_line JSON_parse onUpdate line st =
     (case JSON_parse (drop 6 line) of
        Inl e \<Rightarrow> (Some e, st)
      | Inr data \<Rightarrow>
          (let st1 = st\<lparr>handler := onUpdate data (handler st)\<rparr> in
           if su_status data = Complete \<and> truthy (su_fen data) then
             (None, st1\<lparr>finalResult := Some \<lparr>tr_transcript = su_transcript data,
                                              tr_user_move = su_user_move data,
                                              tr_engine_move = su_engine_move data,
                                              tr_fen = the (su_fen data),
                                              tr_moves = []\<rparr>\<rparr>)
           else if su_status data = Error \<or> truthy (su_error data) then
             (Some (Thrown ''Error'' (or_else (su_error data) ''Unknown error'')), st1)
           else (None, st1)))"

text \<open>
  One iteration of \<open>for (const line of lines)\<close>: the marker test, the \<open>try\<close> body and
  its \<open>catch (parseError)\<close>, which logs whatever was thrown and goes on.
\<close>

definition process_line ::
  "(string \<Rightarrow> thrown + StreamUpdate) \<Rightarrow> (StreamUpdate \<Rightarrow> 'h \<Rightarrow> 'h) \<Rightarrow> 'h progress \<Rightarrow>
   string \<Rightarrow> 'h progress" where
  "process_line JSON_parse onUpdate st line =
     (if startsWith line ''data: '' then
        (case try_line JSON_parse onUpdate line st of
           (Some e, st') \<Rightarrow> st'\<lparr>console := console st' @ [(line, e)]\<rparr>
         | (None, st') \<Rightarrow> st')
      else st)"

definition process_chunk ::
  "(string \<Rightarrow> thrown + StreamUpdate) \<Rightarrow> (StreamUpdate \<Rightarrow> 'h \<Rightarrow> 'h) \<Rightarrow> 'h progress \<Rightarrow>
   string \<Rightarrow> 'h progress" where
  "process_chunk JSON_parse onUpdate st chunk =
     foldl (process_line JSON_parse onUpdate) st (split_nl chunk)"

text \<open>
  The \<open>while (true)\<close> loop. The first component is the exception that leaves the loop
  (\<open>None\<close> when it ends by \<open>break\<close>).
\<close>

function read_loop ::
  "(string \<Rightarrow> thrown + StreamUpdate) \<Rightarrow> (StreamUpdate \<Rightarrow> 'h \<Rightarrow> 'h) \<Rightarrow> reader \<Rightarrow>
   'h progress \<Rightarrow> thrown option \<times> reader \<times> 'h progress" where
  "read_loop JSON_parse onUpdate rd st =
     (case read rd of
        (Inl e, rd') \<Rightarrow> (Some e, rd', st)
      | (Inr None, rd') \<Rightarrow> (None, rd', st)
      | (Inr (Some v), rd') \<Rightarrow>
          read_loop JSON_parse onUpdate rd' (process_chunk JSON_parse onUpdate st v))"
  by pat_completeness auto

termination read_loop
proof (relation "measure (\<lambda>(p, h, rd, st). length (source rd))")
  show "wf (measure (\<lambda>(p, h, rd, st). length (source rd)))"
    by simp
next
  fix JSON_parse :: "string \<Rightarrow> thrown + StreamUpdate"
    and onUpdate :: "StreamUpdate \<Rightarrow> 'h \<Rightarrow> 'h"
    and rd rd' :: reader and st :: "'h progress" and x y v
  assume "(x, rd') = read rd" and "x = Inr y" and "y = Some v"
  then have "read rd = (Inr (Some v), rd')"
    by simp
  then have "length (source rd') < length (source rd)"
    by (cases rd rule: read.cases) auto
  then show "((JSON_parse, onUpdate, rd', process_chunk JSON_parse onUpdate st v),
              (JSON_parse, onUpdate, rd, st))
             \<in> measure (\<lambda>(p, h, rd, st). length (source rd))"
    by simp
qed

declare read_loop.simps [simp del]

text \<open>
  Lines 87 to 129: the loop inside \<open>try ... finally { reader.releaseLock() }\<close>, then the
  test of \<open>finalResult\<close>.
\<close>

definition consume ::
  "(string \<Rightarrow> thrown + StreamUpdate) \<Rightarrow> (StreamUpdate \<Rightarrow> 'h \<Rightarrow> 'h) \<Rightarrow> reader \<Rightarrow> 'h \<Rightarrow>
   (thrown + TurnResponse) \<times> 'h progress \<times> reader" where
  "consume JSON_parse onUpdate rd h =
     (case read_loop JSON_parse onUpdate rd \<lparr>handler = h, finalResult = None, console = []\<rparr> of
        (exn, rd1, st) \<Rightarrow>
          (let rd2 = releaseLock rd1 in
           (case exn of
              Some e \<Rightarrow> (Inl e, st, rd2)
            | None \<Rightarrow>
                (case finalResult st of
                   None \<Rightarrow> (Inl (Thrown ''Error'' ''No final result received from server''), st, rd2)
                 | Some r \<Rightarrow> (Inr r, st, rd2)))))"

text \<open>
  Lines 70 to 129, the body of the outer \<open>try\<close>. \<open>fo\<close> is what the POST to
  \<open>/sessions/<id>/turn-stream\<close> gave. The reader is \<open>None\<close> when none was obtained.
\<close>

definition attempt ::
  "(string \<Rightarrow> thrown + StreamUpdate) \<Rightarrow> (StreamUpdate \<Rightarrow> 'h \<Rightarrow> 'h) \<Rightarrow> fetch_outcome \<Rightarrow> 'h \<Rightarrow>
   (thrown + TurnResponse) \<times> 'h progress \<times> reader option" where
  "attempt JSON_parse onUpdate fo h =
     (let st0 = \<lparr>handler = h, finalResult = None, console = []\<rparr> in
      case fo of
        Rejected e \<Rightarrow> (Inl e, st0, None)
      | Responded resp \<Rightarrow>
          if \<not> ok resp then
            (Inl (Thrown ''Error'' (or_else (detail resp) (statusText resp))), st0, None)
          else
            (case body resp of
               None \<Rightarrow> (Inl (Thrown ''Error'' ''No response body''), st0, None)
             | Some src \<Rightarrow>
                 (case consume JSON_parse onUpdate (getReader src) h of
                    (r, st, rd) \<Rightarrow> (r, st, Some rd))))"

text \<open>The outer \<open>catch\<close>: an \<open>AbortError\<close> is replaced, anything else is thrown again.\<close>

definition rethrow :: "thrown \<Rightarrow> thrown" where
  "rethrow e =
     (if err_name e = ''AbortError''
      then Thrown ''Error'' ''Request timed out. Please try again with a shorter recording.''
      else e)"

definition submitTurnStream ::
  "(string \<Rightarrow> thrown + StreamUpdate) \<Rightarrow> (StreamUpdate \<Rightarrow> 'h \<Rightarrow> 'h) \<Rightarrow> fetch_outcome \<Rightarrow> 'h \<Rightarrow>
   (thrown + TurnResponse) \<times> 'h progress \<times> reader option" where
  "submitTurnStream JSON_parse onUpdate fo h =
     (case attempt JSON_parse onUpdate fo h of
        (Inl e, st, rd) \<Rightarrow> (Inl (rethrow e), st, rd)
      | (Inr r, st, rd) \<Rightarrow> (Inr r, st, rd))"

section \<open>The client turn controller\<close>

type_synonym blob = string

text \<open>
  The state of the \<open>App\<close> component that the turn handlers read and write, with the
  \<open>isRecording\<close> and \<open>error\<close> state of the \<open>useAudioRecorder\<close> hook, and the list of
  texts for which \<open>speakMove\<close> requested speech.
\<close>

record ui_state =
  session :: "SessionState option"
  status :: "string option"
  isLoading :: bool
  isSubmitting :: bool
  error :: "string option"
  skillLevel :: int
  gameEnded :: bool
  isRecording :: bool
  recorderError :: "string option"
  spoken :: "string list"

text \<open>
  What the outside world answers while one handler runs: the built-in \<open>JSON.parse\<close>, the
  POST of the audio to \<open>/turn-stream\<close>, \<open>getSession\<close> and \<open>createSession\<close> (each a
  \<open>fetch\<close> followed by \<open>handleResponse\<close>), the rejection of \<open>getUserMedia\<close> if any,
  and the blob that \<open>stop()\<close> resolves with (\<open>None\<close> when no audio chunk arrived).
\<close>

record world =
  json :: "string \<Rightarrow> thrown + StreamUpdate"
  post_turn_stream :: "string \<Rightarrow> blob \<Rightarrow> fetch_outcome"
  getSession :: "string \<Rightarrow> thrown + SessionState"
  createSession :: "int \<Rightarrow> thrown + SessionState"
  getUserMedia :: "thrown option"
  recorded :: "blob option"

text \<open>A possibly undefined string inside a template literal.\<close>

fun interpolate :: "string option \<Rightarrow> string" where
  "interpolate None = ''undefined''"
| "interpolate (Some s) = s"

text \<open>\<open>session?.session_id\<close> as a condition.\<close>

definition has_session_id :: "ui_state \<Rightarrow> bool" where
  "has_session_id st = (case session st of None \<Rightarrow> False | Some s \<Rightarrow> session_id s \<noteq> [])"

text \<open>The \<open>switch\<close> of \<open>handleStreamUpdate\<close>: six cases, no case for \<open>error\<close>, no default.\<close>

definition handleStreamUpdate :: "StreamUpdate \<Rightarrow> ui_state \<Rightarrow> ui_state" where
  "handleStreamUpdate update st =
     (case su_status update of
        Transcribing \<Rightarrow> st\<lparr>status := Some ''Transcribing audio...''\<rparr>
      | Transcribed \<Rightarrow>
          st\<lparr>status := Some (''Heard: \"'' @ interpolate (su_transcript update) @ ''\"'')\<rparr>
      | Interpreting \<Rightarrow> st\<lparr>status := Some ''Interpreting move with LLM...''\<rparr>
      | PlayerMoved \<Rightarrow>
          st\<lparr>status := Some (''Your move: '' @ interpolate (map_option san (su_move update))
                               @ ''. Engine is thinking...'')\<rparr>
      | EngineThinking \<Rightarrow> st\<lparr>status := Some ''Engine is calculating...''\<rparr>
      | Complete \<Rightarrow>
          st\<lparr>status := Some (''Complete! Engine replied ''
                               @ interpolate (map_option san (su_engine_move update)) @ ''.'')\<rparr>
      | Error \<Rightarrow> st)"

text \<open>
  \<open>speakMove\<close> catches everything it throws; what remains of it here is the request made.
\<close>

definition speakMove :: "string \<Rightarrow> string \<Rightarrow> ui_state \<Rightarrow> ui_state" where
  "speakMove sessionId move st = st\<lparr>spoken := spoken st @ [move]\<rparr>"

text \<open>
  The recorder hook. \<open>recorder.current\<close> is set exactly while \<open>isRecording\<close> holds, so
  the test \<open>!isRecording || !recorder.current\<close> is the test of \<open>isRecording\<close>.
\<close>

definition start :: "world \<Rightarrow> ui_state \<Rightarrow> thrown option \<times> ui_state" where
  "start w st =
     (let st1 = st\<lparr>recorderError := None\<rparr> in
      if isRecording st then (None, st1)
      else (case getUserMedia w of
              Some e \<Rightarrow>
                (Some e, st1\<lparr>recorderError :=
                               Some ''Microphone access denied or unsupported browser.''\<rparr>)
            | None \<Rightarrow> (None, st1\<lparr>isRecording := True\<rparr>)))"

definition stop :: "world \<Rightarrow> ui_state \<Rightarrow> blob option \<times> ui_state" where
  "stop w st =
     (if \<not> isRecording st then (None, st)
      else (recorded w, st\<lparr>isRecording := False\<rparr>))"

text \<open>
  Lines 85 to 89 of the controller: the effect that copies the recorder's error into the
  \<open>error\<close> state. It runs after a render in which the recorder's error changed.
\<close>

definition recorderErrorEffect :: "ui_state \<Rightarrow> ui_state" where
  "recorderErrorEffect st =
     (if truthy (recorderError st) then st\<lparr>error := recorderError st\<rparr> else st)"

text \<open>
  \<open>handleStartRecording\<close>, lines 96 to 109, followed by that effect. \<open>start\<close> clears the
  recorder's error before it awaits and sets it when the microphone is refused, so once
  \<open>start\<close> has run the effect comes after the handler's own writes: after a refusal it
  replaces the thrown error's message by the recorder's text, after a success it finds
  nothing to copy.
\<close>

definition handleStartRecording :: "world \<Rightarrow> ui_state \<Rightarrow> ui_state" where
  "handleStartRecording w st =
     (if \<not> has_session_id st \<or> isRecording st \<or> isSubmitting st then st
      else recorderErrorEffect
        (case start w st of
           (None, st1) \<Rightarrow> st1\<lparr>status := Some ''Recording... (release to submit)'', error := None\<rparr>
         | (Some e, st1) \<Rightarrow> st1\<lparr>status := None, error := Some (err_message e)\<rparr>))"

text \<open>Reading \<open>.san\<close> of an absent move throws.\<close>

definition no_san :: thrown where
  "no_san = Thrown ''TypeError'' ''Cannot read properties of undefined (reading san)''"

text \<open>
  Lines 156 to 178 of the controller: the four tests on \<open>turn.engine_move.san\<close> and the
  ordinary reply. The result is the exception thrown, if any, and the state.
\<close>

definition announce :: "string \<Rightarrow> TurnResponse \<Rightarrow> ui_state \<Rightarrow> thrown option \<times> ui_state" where
  "announce sid turn st =
     (case tr_engine_move turn of
        None \<Rightarrow> (Some no_san, st)
      | Some em \<Rightarrow>
          if san em = ''Checkmate!'' then
            (case tr_user_move turn of
               None \<Rightarrow> (Some no_san, st)
             | Some um \<Rightarrow>
                 (None, (speakMove sid ''Checkmate! You win!''
                           (st\<lparr>status := Some (''Checkmate! You win! Your move: '' @ san um)\<rparr>))
                        \<lparr>gameEnded := True\<rparr>))
          else if san em = ''Stalemate'' then
            (case tr_user_move turn of
               None \<Rightarrow> (Some no_san, st)
             | Some um \<Rightarrow>
                 (None, (speakMove sid ''Stalemate. Game drawn.''
                           (st\<lparr>status := Some (''Stalemate! Game drawn. Your move: '' @ san um)\<rparr>))
                        \<lparr>gameEnded := True\<rparr>))
          else if endsWith (san em) ''#'' then
            (None, (speakMove sid ''Checkmate! I win!''
                      (st\<lparr>status := Some (''Checkmate! Engine wins with '' @ san em)\<rparr>))
                   \<lparr>gameEnded := True\<rparr>)
          else if includes_str (san em) ''Stalemate'' then
            (None, (speakMove sid ''Stalemate. Game drawn.''
                      (st\<lparr>status := Some (''Stalemate! Game drawn. Engine played '' @ san em)\<rparr>))
                   \<lparr>gameEnded := True\<rparr>)
          else
            (case tr_user_move turn of
               None \<Rightarrow> (Some no_san, st)
             | Some um \<Rightarrow>
                 (None, speakMove sid (san em)
                          (st\<lparr>status := Some (''Heard \"'' @ interpolate (tr_transcript turn)
                                               @ ''\". Interpreted move '' @ san um
                                               @ ''. Engine replied '' @ san em @ ''.'')\<rparr>))))"

text \<open>The \<open>try\<close> block of \<open>handleStopRecording\<close>, lines 120 to 178.\<close>

definition turn_body :: "world \<Rightarrow> string \<Rightarrow> ui_state \<Rightarrow> thrown option \<times> ui_state" where
  "turn_body w sid st =
     (case stop w st of
        (None, st2) \<Rightarrow> (Some (Thrown ''Error'' ''No audio captured''), st2)
      | (Some audio, st2) \<Rightarrow>
          (case submitTurnStream (json w) handleStreamUpdate (post_turn_stream w sid audio) st2 of
             (Inl e, prog, rd) \<Rightarrow> (Some e, handler prog)
           | (Inr turn, prog, rd) \<Rightarrow>
               (case getSession w sid of
                  Inl e \<Rightarrow> (Some e, handler prog)
                | Inr updatedSession \<Rightarrow>
                    announce sid turn
                      ((handler prog)\<lparr>session := Some updatedSession, error := None\<rparr>))))"

definition handleStopRecording :: "world \<Rightarrow> ui_state \<Rightarrow> ui_state" where
  "handleStopRecording w st =
     (if \<not> has_session_id st \<or> \<not> isRecording st \<or> isSubmitting st then st
      else
        (let st1 = st\<lparr>isSubmitting := True, status := Some ''Uploading audio...''\<rparr>;
             st3 = (case turn_body w (session_id (the (session st))) st1 of
                      (None, st2) \<Rightarrow> st2
                    | (Some e, st2) \<Rightarrow> st2\<lparr>error := Some (err_message e), status := None\<rparr>)
         in st3\<lparr>isSubmitting := False\<rparr>))"

definition startNewGame :: "world \<Rightarrow> ui_state \<Rightarrow> ui_state" where
  "startNewGame w st =
     (let st1 = st\<lparr>isLoading := True, gameEnded := False, error := None, status := None\<rparr>;
          st2 = (case createSession w (skillLevel st) of
                   Inr created \<Rightarrow> st1\<lparr>session := Some created\<rparr>
                 | Inl e \<Rightarrow> st1\<lparr>error := Some (err_message e)\<rparr>)
      in st2\<lparr>isLoading := False\<rparr>)"

text \<open>The key handlers, for an Enter key that is not a repeat.\<close>

definition handleKeyDown :: "world \<Rightarrow> ui_state \<Rightarrow> ui_state" where
  "handleKeyDown w st =
     (if \<not> isRecording st \<and> \<not> isSubmitting st \<and> \<not> gameEnded st \<and> has_session_id st
      then handleStartRecording w st else st)"

definition handleKeyUp :: "world \<Rightarrow> ui_state \<Rightarrow> ui_state" where
  "handleKeyUp w st =
     (if isRecording st \<and> \<not> isSubmitting st then handleStopRecording w st else st)"

text \<open>
  What the user can do. The record button, the restart button and the slider exist only
  in the main view (not while loading, not without a session). The record button is
  \<open>disabled\<close> while submitting or after the game ended: that withholds its
  \<open>onMouseDown\<close> and \<open>onMouseUp\<close> handlers only, and its \<open>onMouseLeave\<close>,
  \<open>onTouchStart\<close> and \<open>onTouchEnd\<close> handlers (lines 274 to 276) are called whenever the
  button is there. The restart button is rendered only after the game ended, and the
  slider is disabled while submitting or recording.
\<close>

datatype ui_event =
  KeyDownEnter | KeyUpEnter | MouseDown | MouseUp | MouseLeave | TouchStart | TouchEnd
  | ClickStartNewGame | ChangeSkill int

definition main_view :: "ui_state \<Rightarrow> bool" where
  "main_view st = (\<not> isLoading st \<and> session st \<noteq> None)"

fun dispatch_event :: "world \<Rightarrow> ui_event \<Rightarrow> ui_state \<Rightarrow> ui_state" where
  "dispatch_event w KeyDownEnter st = handleKeyDown w st"
| "dispatch_event w KeyUpEnter st = handleKeyUp w st"
| "dispatch_event w MouseDown st =
     (if main_view st \<and> \<not> (isSubmitting st \<or> gameEnded st) then handleStartRecording w st else st)"
| "dispatch_event w MouseUp st =
     (if main_view st \<and> \<not> (isSubmitting st \<or> gameEnded st) then handleStopRecording w st else st)"
| "dispatch_event w MouseLeave st = (if main_view st then handleStopRecording w st else st)"
| "dispatch_event w TouchStart st = (if main_view st then handleStartRecording w st else st)"
| "dispatch_event w TouchEnd st = (if main_view st then handleStopRecording w st else st)"
| "dispatch_event w ClickStartNewGame st =
     (if main_view st \<and> gameEnded st then startNewGame w st else st)"
| "dispatch_event w (ChangeSkill n) st =
     (if main_view st \<and> \<not> (isSubmitting st \<or> isRecording st) then st\<lparr>skillLevel := n\<rparr> else st)"

text \<open>A run of the controller: each event with the world's answers while it is handled.\<close>

fun run :: "(world \<times> ui_event) list \<Rightarrow> ui_state \<Rightarrow> ui_state" where
  "run [] st = st"
| "run ((w, ev) # rest) st = run rest (dispatch_event w ev st)"

section \<open>Vocabulary for the properties\<close>

text \<open>
  The update that the loop body gets out of one line: the line has the marker and the
  rest of it parses.
\<close>

definition parsed_line :: "(string \<Rightarrow> thrown + StreamUpdate) \<Rightarrow> string \<Rightarrow> StreamUpdate option" where
  "parsed_line JSON_parse line =
     (if startsWith line ''data: '' then
        (case JSON_parse (drop 6 line) of Inl e \<Rightarrow> None | Inr u \<Rightarrow> Some u)
      else None)"

text \<open>The frames of a text: the updates of its lines, in order.\<close>

definition frames :: "(string \<Rightarrow> thrown + StreamUpdate) \<Rightarrow> string \<Rightarrow> StreamUpdate list" where
  "frames JSON_parse text = List.map_filter (parsed_line JSON_parse) (split_nl text)"

text \<open>The chunks that are read before the stream is done or a read fails, and that failure.\<close>

fun chunks_read :: "read_event list \<Rightarrow> string list" where
  "chunks_read [] = []"
| "chunks_read (Chunk v # rest) = v # chunks_read rest"
| "chunks_read (ReadFails e # rest) = []"

fun failure_of :: "read_event list \<Rightarrow> thrown option" where
  "failure_of [] = None"
| "failure_of (Chunk v # rest) = failure_of rest"
| "failure_of (ReadFails e # rest) = Some e"

text \<open>The events observed on a stream: the frames of each chunk read, chunk after chunk.\<close>

definition observed :: "(string \<Rightarrow> thrown + StreamUpdate) \<Rightarrow> read_event list \<Rightarrow> StreamUpdate list" where
  "observed JSON_parse src = concat (map (frames JSON_parse) (chunks_read src))"

text \<open>The test of line 104, and the object built on lines 105 to 111.\<close>

definition terminal_success :: "StreamUpdate \<Rightarrow> bool" where
  "terminal_success u = (su_status u = Complete \<and> truthy (su_fen u))"

definition synthesized :: "StreamUpdate \<Rightarrow> TurnResponse" where
  "synthesized u = \<lparr>tr_transcript = su_transcript u, tr_user_move = su_user_move u,
                    tr_engine_move = su_engine_move u, tr_fen = the (su_fen u), tr_moves = []\<rparr>"

definition keep_final :: "TurnResponse option \<Rightarrow> StreamUpdate \<Rightarrow> TurnResponse option" where
  "keep_final fr u = (if terminal_success u then Some (synthesized u) else fr)"

section \<open>Sample data\<close>

text \<open>
  \<open>JSON.parse\<close> is a parameter of the model. The examples use a table from payload text
  to the update it denotes; any other text is a syntax error.
\<close>

definition table_parse :: "(string \<times> StreamUpdate) list \<Rightarrow> string \<Rightarrow> thrown + StreamUpdate" where
  "table_parse tbl s =
     (case map_of tbl s of
        None \<Rightarrow> Inl (Thrown ''SyntaxError'' ''Unexpected token'')
      | Some u \<Rightarrow> Inr u)"

definition blank :: "Status \<Rightarrow> StreamUpdate" where
  "blank s = \<lparr>su_status = s, su_transcript = None, su_move = None, su_user_move = None,
              su_engine_move = None, su_fen = None, su_error = None\<rparr>"

definition ev_transcribing :: StreamUpdate where
  "ev_transcribing = blank Transcribing"

definition ev_error :: StreamUpdate where
  "ev_error = (blank Error)\<lparr>su_error := Some ''Could not understand audio''\<rparr>"

definition ev_complete_bare :: StreamUpdate where
  "ev_complete_bare = blank Complete"

definition ev_complete :: StreamUpdate where
  "ev_complete = (blank Complete)\<lparr>
     su_transcript := Some ''pawn to e4'',
     su_user_move := Some \<lparr>uci = ''e2e4'', san = ''e4''\<rparr>,
     su_engine_move := Some \<lparr>uci = ''e7e5'', san = ''e5''\<rparr>,
     su_fen := Some ''rnbqkbnr/pppp1ppp/8/4p3/4P3/8/PPPP1PPP/RNBQKBNR w KQkq - 0 2''\<rparr>"

definition ev_mate :: StreamUpdate where
  "ev_mate = (blank Complete)\<lparr>
     su_transcript := Some ''pawn to g4'',
     su_user_move := Some \<lparr>uci = ''g2g4'', san = ''g4''\<rparr>,
     su_engine_move := Some \<lparr>uci = ''d8h4'', san = ''Qh4#''\<rparr>,
     su_fen := Some ''rnb1kbnr/pppp1ppp/8/4p3/6Pq/5P2/PPPPP2P/RNBQKBNR w KQkq - 1 3''\<rparr>"

text \<open>The payload texts of these events, and a payload as the server frames it.\<close>

definition js_transcribing :: string where
  "js_transcribing = ''{\"status\":\"transcribing\"}''"

definition js_error :: string where
  "js_error = ''{\"status\":\"error\",\"error\":\"Could not understand audio\"}''"

definition js_complete_bare :: string where
  "js_complete_bare = ''{\"status\":\"complete\"}''"

definition js_complete :: string where
  "js_complete = ''{\"status\":\"complete\",\"transcript\":\"pawn to e4\",\"user_move\":{\"uci\":\"e2e4\",\"san\":\"e4\"},\"engine_move\":{\"uci\":\"e7e5\",\"san\":\"e5\"},\"fen\":\"rnbqkbnr/pppp1ppp/8/4p3/4P3/8/PPPP1PPP/RNBQKBNR w KQkq - 0 2\"}''"

definition js_mate :: string where
  "js_mate = ''{\"status\":\"complete\",\"transcript\":\"pawn to g4\",\"user_move\":{\"uci\":\"g2g4\",\"san\":\"g4\"},\"engine_move\":{\"uci\":\"d8h4\",\"san\":\"Qh4#\"},\"fen\":\"rnb1kbnr/pppp1ppp/8/4p3/6Pq/5P2/PPPPP2P/RNBQKBNR w KQkq - 1 3\"}''"

definition sample_events :: "(string \<times> StreamUpdate) list" where
  "sample_events =
     [(js_transcribing, ev_transcribing), (js_error, ev_error),
      (js_complete_bare, ev_complete_bare), (js_complete, ev_complete), (js_mate, ev_mate)]"

definition frame :: "string \<Rightarrow> string" where
  "frame payload = ''data: '' @ payload @ [newline]"

definition record_update :: "StreamUpdate \<Rightarrow> StreamUpdate list \<Rightarrow> StreamUpdate list" where
  "record_update u log = log @ [u]"

definition ok_response :: "read_event list \<Rightarrow> fetch_outcome" where
  "ok_response src = Responded \<lparr>ok = True, statusText = ''OK'', detail = None, body = Some src\<rparr>"

text \<open>Sessions, controller states and worlds for the examples.\<close>

definition mv :: "nat \<Rightarrow> Actor \<Rightarrow> string \<Rightarrow> string \<Rightarrow> MoveRecord" where
  "mv n a u s = \<lparr>mr_ply = n, mr_actor = a, mr_uci = u, mr_san = s, mr_transcript = None,
                 mr_timestamp = ''2024-01-01T00:00:00Z''\<rparr>"

definition session_start :: SessionState where
  "session_start = \<lparr>session_id = ''s1'',
     ss_fen = ''rnbqkbnr/pppppppp/8/8/8/8/PPPPPPPP/RNBQKBNR w KQkq - 0 1'', ss_moves = []\<rparr>"

definition session_e4_e5 :: SessionState where
  "session_e4_e5 = \<lparr>session_id = ''s1'',
     ss_fen = ''rnbqkbnr/pppp1ppp/8/4p3/4P3/8/PPPP1PPP/RNBQKBNR w KQkq - 0 2'',
     ss_moves = [mv 1 player ''e2e4'' ''e4'', mv 2 engine ''e7e5'' ''e5'']\<rparr>"

definition session_f3_e5 :: SessionState where
  "session_f3_e5 = \<lparr>session_id = ''s1'',
     ss_fen = ''rnbqkbnr/pppp1ppp/8/4p3/8/5P2/PPPPP1PP/RNBQKBNR w KQkq - 0 2'',
     ss_moves = [mv 1 player ''f2f3'' ''f3'', mv 2 engine ''e7e5'' ''e5'']\<rparr>"

definition session_mated :: SessionState where
  "session_mated = \<lparr>session_id = ''s1'',
     ss_fen = ''rnb1kbnr/pppp1ppp/8/4p3/6Pq/5P2/PPPPP2P/RNBQKBNR w KQkq - 1 3'',
     ss_moves = [mv 1 player ''f2f3'' ''f3'', mv 2 engine ''e7e5'' ''e5'',
                 mv 3 player ''g2g4'' ''g4'', mv 4 engine ''d8h4'' ''Qh4#'']\<rparr>"

definition idle_state :: "SessionState \<Rightarrow> ui_state" where
  "idle_state s = \<lparr>session = Some s, status = None, isLoading = False, isSubmitting = False,
     error = None, skillLevel = 5, gameEnded = False, isRecording = False,
     recorderError = None, spoken = []\<rparr>"

definition recording_state :: "SessionState \<Rightarrow> ui_state" where
  "recording_state s =
     (idle_state s)\<lparr>isRecording := True, status := Some ''Recording... (release to submit)''\<rparr>"

definition sample_world :: "read_event list \<Rightarrow> (thrown + SessionState) \<Rightarrow> world" where
  "sample_world src fetched = \<lparr>json = table_parse sample_events,
     post_turn_stream = (\<lambda>sid audio. ok_response src),
     getSession = (\<lambda>sid. fetched),
     createSession = (\<lambda>level. Inr session_start),
     getUserMedia = None,
     recorded = Some ''webm''\<rparr>"

definition mate_world :: "thrown + SessionState \<Rightarrow> world" where
  "mate_world fetched = sample_world [Chunk (frame js_mate)] fetched"

definition offline :: "world \<Rightarrow> world" where
  "offline w = w\<lparr>createSession := (\<lambda>level. Inl (Thrown ''TypeError'' ''Failed to fetch''))\<rparr>"

section \<open>Facts about the stream loop\<close>

lemma read_loop_done [simp]:
  "read_loop p h (Reader l []) st = (None, Reader l [], st)"
  by (simp add: read_loop.simps)

lemma read_loop_chunk [simp]:
  "read_loop p h (Reader l (Chunk v # rest)) st =
     read_loop p h (Reader l rest) (process_chunk p h st v)"
  by (subst read_loop.simps) simp

lemma read_loop_fails [simp]:
  "read_loop p h (Reader l (ReadFails e # rest)) st = (Some e, Reader l rest, st)"
  by (simp add: read_loop.simps)

lemma process_line_handler:
  "handler (process_line p h st line) =
     (case parsed_line p line of None \<Rightarrow> handler st | Some u \<Rightarrow> h u (handler st))"
  by (simp add: process_line_def try_line_def parsed_line_def Let_def split: sum.splits)

lemma process_line_final:
  "finalResult (process_line p h st line) =
     (case parsed_line p line of None \<Rightarrow> finalResult st | Some u \<Rightarrow> keep_final (finalResult st) u)"
  by (simp add: process_line_def try_line_def parsed_line_def Let_def keep_final_def
      terminal_success_def synthesized_def split: sum.splits)

lemma foldl_map_filter:
  "foldl f s (List.map_filter g xs) =
     foldl (\<lambda>s x. case g x of None \<Rightarrow> s | Some u \<Rightarrow> f s u) s xs"
  by (induction xs arbitrary: s) (simp_all add: map_filter_simps split: option.splits)

lemma lines_handler:
  "handler (foldl (process_line p h) st ls) =
     foldl (\<lambda>s line. case parsed_line p line of None \<Rightarrow> s | Some u \<Rightarrow> h u s) (handler st) ls"
  by (induction ls arbitrary: st) (simp_all add: process_line_handler)

lemma lines_final:
  "finalResult (foldl (process_line p h) st ls) =
     foldl (\<lambda>fr line. case parsed_line p line of None \<Rightarrow> fr | Some u \<Rightarrow> keep_final fr u)
       (finalResult st) ls"
  by (induction ls arbitrary: st) (simp_all add: process_line_final)

lemma process_chunk_handler:
  "handler (process_chunk p h st v) = foldl (\<lambda>s u. h u s) (handler st) (frames p v)"
  by (simp add: process_chunk_def frames_def foldl_map_filter lines_handler)

lemma process_chunk_final:
  "finalResult (process_chunk p h st v) = foldl keep_final (finalResult st) (frames p v)"
  by (simp add: process_chunk_def frames_def foldl_map_filter lines_final)

lemma observed_simps [simp]:
  "observed p [] = []"
  "observed p (Chunk v # rest) = frames p v @ observed p rest"
  "observed p (ReadFails e # rest) = []"
  by (simp_all add: observed_def)

lemma read_loop_exn: "fst (read_loop p h (Reader l src) st) = failure_of src"
  by (induction src arbitrary: st rule: failure_of.induct) simp_all

lemma read_loop_lock: "locked (fst (snd (read_loop p h (Reader l src) st))) = l"
  by (induction src arbitrary: st rule: failure_of.induct) simp_all

lemma read_loop_handler:
  "handler (snd (snd (read_loop p h (Reader l src) st))) =
     foldl (\<lambda>s u. h u s) (handler st) (observed p src)"
  by (induction src arbitrary: st rule: failure_of.induct) (simp_all add: process_chunk_handler)

lemma read_loop_final:
  "finalResult (snd (snd (read_loop p h (Reader l src) st))) =
     foldl keep_final (finalResult st) (observed p src)"
  by (induction src arbitrary: st rule: failure_of.induct) (simp_all add: process_chunk_final)

text \<open>The last terminal success event decides \<open>finalResult\<close>.\<close>

lemma keep_final_last:
  "foldl keep_final fr us =
     (if filter terminal_success us = [] then fr
      else Some (synthesized (last (filter terminal_success us))))"
  by (induction us rule: rev_induct) (simp_all add: keep_final_def)

lemma keep_final_none:
  "\<forall>u \<in> set us. \<not> terminal_success u \<Longrightarrow> foldl keep_final fr us = fr"
  by (simp add: keep_final_last filter_empty_conv)

text \<open>What \<open>consume\<close> gives, one component at a time.\<close>

lemma consume_result:
  "fst (consume p h (Reader l src) h0) =
     (case failure_of src of
        Some e \<Rightarrow> Inl e
      | None \<Rightarrow>
          (case foldl keep_final None (observed p src) of
             None \<Rightarrow> Inl (Thrown ''Error'' ''No final result received from server'')
           | Some r \<Rightarrow> Inr r))"
proof -
  let ?st0 = "\<lparr>handler = h0, finalResult = None, console = []\<rparr>"
  obtain exn rd1 st where run: "read_loop p h (Reader l src) ?st0 = (exn, rd1, st)"
    by (cases "read_loop p h (Reader l src) ?st0") auto
  have "exn = failure_of src"
    using read_loop_exn [of p h l src ?st0] run by simp
  moreover have "finalResult st = foldl keep_final None (observed p src)"
    using read_loop_final [of p h l src ?st0] run by simp
  ultimately show ?thesis
    by (simp add: consume_def run Let_def split: option.splits)
qed

lemma consume_handler:
  "handler (fst (snd (consume p h (Reader l src) h0))) = foldl (\<lambda>s u. h u s) h0 (observed p src)"
proof -
  let ?st0 = "\<lparr>handler = h0, finalResult = None, console = []\<rparr>"
  obtain exn rd1 st where run: "read_loop p h (Reader l src) ?st0 = (exn, rd1, st)"
    by (cases "read_loop p h (Reader l src) ?st0") auto
  have "handler st = foldl (\<lambda>s u. h u s) h0 (observed p src)"
    using read_loop_handler [of p h l src ?st0] run by simp
  then show ?thesis
    by (simp add: consume_def run Let_def split: option.splits)
qed

lemma consume_final:
  "finalResult (fst (snd (consume p h (Reader l src) h0))) =
     foldl keep_final None (observed p src)"
proof -
  let ?st0 = "\<lparr>handler = h0, finalResult = None, console = []\<rparr>"
  obtain exn rd1 st where run: "read_loop p h (Reader l src) ?st0 = (exn, rd1, st)"
    by (cases "read_loop p h (Reader l src) ?st0") auto
  have "finalResult st = foldl keep_final None (observed p src)"
    using read_loop_final [of p h l src ?st0] run by simp
  then show ?thesis
    by (simp add: consume_def run Let_def split: option.splits)
qed

lemma consume_lock: "\<not> locked (snd (snd (consume p h rd h0)))"
proof -
  let ?st0 = "\<lparr>handler = h0, finalResult = None, console = []\<rparr>"
  obtain exn rd1 st where run: "read_loop p h rd ?st0 = (exn, rd1, st)"
    by (cases "read_loop p h rd ?st0") auto
  have "\<not> locked (releaseLock rd1)"
    by (cases rd1) simp
  then show ?thesis
    by (simp add: consume_def run Let_def split: option.splits)
qed

text \<open>The same for the whole call on a response that is \<open>ok\<close> and has a body.\<close>

lemma submit_result:
  assumes "ok resp" and "body resp = Some src"
  shows "fst (submitTurnStream p h (Responded resp) h0) =
     (case failure_of src of
        Some e \<Rightarrow> Inl (rethrow e)
      | None \<Rightarrow>
          (case foldl keep_final None (observed p src) of
             None \<Rightarrow> Inl (Thrown ''Error'' ''No final result received from server'')
           | Some r \<Rightarrow> Inr r))"
    (is "_ = ?thesis_rhs")
proof -
  obtain r st rd where c: "consume p h (Reader True src) h0 = (r, st, rd)"
    by (cases "consume p h (Reader True src) h0") auto
  have r: "r = (case failure_of src of
        Some e \<Rightarrow> Inl e
      | None \<Rightarrow>
          (case foldl keep_final None (observed p src) of
             None \<Rightarrow> Inl (Thrown ''Error'' ''No final result received from server'')
           | Some r \<Rightarrow> Inr r))"
    using consume_result [of p h True src h0] by (simp add: c)
  have "fst (submitTurnStream p h (Responded resp) h0) =
          (case r of Inl e \<Rightarrow> Inl (rethrow e) | Inr v \<Rightarrow> Inr v)"
    using assms
    by (simp add: submitTurnStream_def attempt_def getReader_def c split: sum.splits)
  also have "\<dots> = ?thesis_rhs"
    unfolding r by (simp add: rethrow_def split: option.splits)
  finally show ?thesis .
qed

lemma submit_handler:
  assumes "ok resp" and "body resp = Some src"
  shows "handler (fst (snd (submitTurnStream p h (Responded resp) h0))) =
           foldl (\<lambda>s u. h u s) h0 (observed p src)"
proof -
  obtain r st rd where c: "consume p h (Reader True src) h0 = (r, st, rd)"
    by (cases "consume p h (Reader True src) h0") auto
  have "handler st = foldl (\<lambda>s u. h u s) h0 (observed p src)"
    using consume_handler [of p h True src h0] by (simp add: c)
  then show ?thesis
    using assms
    by (simp add: submitTurnStream_def attempt_def getReader_def c split: sum.splits)
qed

lemma submit_final:
  assumes "ok resp" and "body resp = Some src"
  shows "finalResult (fst (snd (submitTurnStream p h (Responded resp) h0))) =
           foldl keep_final None (observed p src)"
proof -
  obtain r st rd where c: "consume p h (Reader True src) h0 = (r, st, rd)"
    by (cases "consume p h (Reader True src) h0") auto
  have "finalResult st = foldl keep_final None (observed p src)"
    using consume_final [of p h True src h0] by (simp add: c)
  then show ?thesis
    using assms
    by (simp add: submitTurnStream_def attempt_def getReader_def c split: sum.splits)
qed

lemma submit_reader:
  assumes "ok resp" and "body resp = Some src"
  shows "\<exists>rd. snd (snd (submitTurnStream p h (Responded resp) h0)) = Some rd \<and> \<not> locked rd"
proof -
  obtain r st rd where c: "consume p h (getReader src) h0 = (r, st, rd)"
    by (cases "consume p h (getReader src) h0") auto
  have "\<not> locked rd"
    using consume_lock [of p h "getReader src" h0] by (simp add: c)
  then show ?thesis
    using assms
    by (simp add: submitTurnStream_def attempt_def c split: sum.splits)
qed

section \<open>Lines and chunks\<close>

lemma split_nl_not_empty [simp]: "split_nl s \<noteq> []"
  by (induction s) (auto split: list.splits)

lemma split_nl_append_newline:
  "split_nl (xs @ newline # ys) = split_nl xs @ split_nl ys"
  by (induction xs) (auto split: list.splits)

lemma map_filter_append:
  "List.map_filter f (xs @ ys) = List.map_filter f xs @ List.map_filter f ys"
  by (simp add: List.map_filter_def)

lemma frames_empty [simp]: "frames p [] = []"
  by (simp add: frames_def parsed_line_def startsWith_def map_filter_simps)

lemma frames_append_newline:
  "frames p (xs @ newline # ys) = frames p xs @ frames p ys"
  by (simp add: frames_def split_nl_append_newline map_filter_append)

lemma frames_append:
  assumes "c = [] \<or> last c = newline"
  shows "frames p (c @ rest) = frames p c @ frames p rest"
proof (cases "c = []")
  case True
  then show ?thesis by simp
next
  case False
  with assms have "c = butlast c @ [newline]"
    by (metis append_butlast_last_id)
  then obtain xs where c: "c = xs @ [newline]" ..
  have "frames p (c @ rest) = frames p xs @ frames p rest"
    by (simp add: c frames_append_newline)
  moreover have "frames p c = frames p xs"
    using frames_append_newline [of p xs "[]"] by (simp add: c)
  ultimately show ?thesis by simp
qed

lemma frames_concat:
  "\<forall>c \<in> set (butlast cs). c = [] \<or> last c = newline \<Longrightarrow>
   concat (map (frames p) cs) = frames p (concat cs)"
proof (induction cs)
  case Nil
  show ?case by simp
next
  case (Cons c cs)
  show ?case
  proof (cases "cs = []")
    case True
    then show ?thesis by simp
  next
    case False
    with Cons.prems have c: "c = [] \<or> last c = newline"
      and rest: "\<forall>c \<in> set (butlast cs). c = [] \<or> last c = newline"
      by simp_all
    show ?thesis
      using Cons.IH [OF rest] frames_append [OF c, of p "concat cs"] by simp
  qed
qed

lemma chunks_read_map [simp]: "chunks_read (map Chunk cs) = cs"
  by (induction cs) simp_all

lemma failure_of_map [simp]: "failure_of (map Chunk cs) = None"
  by (induction cs) simp_all

lemmas run_defs = submitTurnStream_def attempt_def consume_def getReader_def process_chunk_def
  process_line_def try_line_def startsWith_def table_parse_def sample_events_def ok_response_def
  record_update_def newline_def frame_def rethrow_def Let_def
  js_transcribing_def js_error_def js_complete_def js_complete_bare_def js_mate_def
  ev_transcribing_def ev_error_def ev_complete_def ev_complete_bare_def ev_mate_def blank_def

lemmas observed_defs = observed_def frames_def parsed_line_def map_filter_simps
  terminal_success_def synthesized_def

lemma submit_moves_empty:
  assumes "fst (submitTurnStream p h fo h0) = Inr r"
  shows "tr_moves r = []"
proof (cases fo)
  case (Rejected e)
  with assms show ?thesis
    by (simp add: submitTurnStream_def attempt_def)
next
  case (Responded resp)
  show ?thesis
  proof (cases "ok resp \<and> body resp \<noteq> None")
    case False
    with assms Responded show ?thesis
      by (auto simp: submitTurnStream_def attempt_def Let_def split: option.splits if_splits)
  next
    case True
    then obtain src where ok: "ok resp" and src: "body resp = Some src"
      by auto
    from assms have "foldl keep_final None (observed p src) = Some r"
      unfolding Responded submit_result [OF ok src]
      by (simp split: option.splits)
    then show ?thesis
      by (auto simp: keep_final_last synthesized_def split: if_splits)
  qed
qed

section \<open>Facts about the controller\<close>

lemma handleStreamUpdate_status_only:
  "handleStreamUpdate u st = st\<lparr>status := status (handleStreamUpdate u st)\<rparr>"
  by (simp add: handleStreamUpdate_def split: Status.splits)

lemma updates_status_only:
  "\<exists>x. foldl (\<lambda>s u. handleStreamUpdate u s) st us = st\<lparr>status := x\<rparr>"
proof (induction us arbitrary: st)
  case Nil
  have "st = st\<lparr>status := status st\<rparr>" by simp
  then show ?case by (metis foldl_Nil)
next
  case (Cons u us)
  obtain x where "foldl (\<lambda>s u. handleStreamUpdate u s) (handleStreamUpdate u st) us =
      (handleStreamUpdate u st)\<lparr>status := x\<rparr>"
    using Cons.IH by blast
  moreover have "(handleStreamUpdate u st)\<lparr>status := x\<rparr> = st\<lparr>status := x\<rparr>"
    by (subst handleStreamUpdate_status_only) simp
  ultimately show ?case by auto
qed

lemma submit_handler_any:
  "\<exists>us. handler (fst (snd (submitTurnStream p h fo h0))) = foldl (\<lambda>s u. h u s) h0 us"
proof (cases fo)
  case (Rejected e)
  have "handler (fst (snd (submitTurnStream p h fo h0))) = foldl (\<lambda>s u. h u s) h0 []"
    by (simp add: Rejected submitTurnStream_def attempt_def)
  then show ?thesis ..
next
  case (Responded resp)
  show ?thesis
  proof (cases "ok resp \<and> body resp \<noteq> None")
    case False
    have "handler (fst (snd (submitTurnStream p h fo h0))) = foldl (\<lambda>s u. h u s) h0 []"
      using False
      by (auto simp: Responded submitTurnStream_def attempt_def Let_def split: option.splits)
    then show ?thesis ..
  next
    case True
    then obtain src where "ok resp" and "body resp = Some src"
      by auto
    then have "handler (fst (snd (submitTurnStream p h fo h0))) =
        foldl (\<lambda>s u. h u s) h0 (observed p src)"
      unfolding Responded by (rule submit_handler)
    then show ?thesis ..
  qed
qed

lemma submit_result_same:
  "fst (submitTurnStream p h fo h0) = fst (submitTurnStream p h' fo h0')"
proof (cases fo)
  case (Rejected e)
  then show ?thesis
    by (simp add: submitTurnStream_def attempt_def)
next
  case (Responded resp)
  show ?thesis
  proof (cases "ok resp \<and> body resp \<noteq> None")
    case False
    then show ?thesis
      by (auto simp: Responded submitTurnStream_def attempt_def Let_def split: option.splits)
  next
    case True
    then obtain src where "ok resp" and "body resp = Some src"
      by auto
    then show ?thesis
      unfolding Responded by (simp add: submit_result)
  qed
qed

text \<open>The state in which the handler passed to \<open>submitTurnStream\<close> leaves the controller.\<close>

lemma submit_ui_state:
  "\<exists>x. handler (fst (snd (submitTurnStream p handleStreamUpdate fo st))) = st\<lparr>status := x\<rparr>"
  using submit_handler_any [of p handleStreamUpdate fo st] updates_status_only by metis

lemma announce_keeps:
  "session (snd (announce sid turn st)) = session st"
  "isRecording (snd (announce sid turn st)) = isRecording st"
  "isSubmitting (snd (announce sid turn st)) = isSubmitting st"
  "isLoading (snd (announce sid turn st)) = isLoading st"
  by (simp_all add: announce_def speakMove_def split: option.splits)


text \<open>\<open>handleStopRecording\<close> when the guard lets it run and audio was captured.\<close>

lemma handleStopRecording_runs:
  assumes "session st = Some s" and "session_id s \<noteq> []" and "isRecording st"
    and "\<not> isSubmitting st" and "recorded w = Some audio"
  shows "handleStopRecording w st =
     (let st2 = st\<lparr>isSubmitting := True, status := Some ''Uploading audio...'',
                   isRecording := False\<rparr>;
          call = submitTurnStream (json w) handleStreamUpdate
                   (post_turn_stream w (session_id s) audio) st2;
          st3 = handler (fst (snd call));
          thrown = (\<lambda>e. st3\<lparr>error := Some (err_message e), status := None, isSubmitting := False\<rparr>)
      in case fst call of
           Inl e \<Rightarrow> thrown e
         | Inr turn \<Rightarrow>
             (case getSession w (session_id s) of
                Inl e \<Rightarrow> thrown e
              | Inr updatedSession \<Rightarrow>
                  (case announce (session_id s) turn
                          (st3\<lparr>session := Some updatedSession, error := None\<rparr>) of
                     (None, st4) \<Rightarrow> st4\<lparr>isSubmitting := False\<rparr>
                   | (Some e, st4) \<Rightarrow>
                       st4\<lparr>error := Some (err_message e), status := None,
                           isSubmitting := False\<rparr>)))"
proof -
  let ?st2 = "st\<lparr>isSubmitting := True, status := Some ''Uploading audio...'',
                 isRecording := False\<rparr>"
  obtain r prog rd where c: "submitTurnStream (json w) handleStreamUpdate
      (post_turn_stream w (session_id s) audio) ?st2 = (r, prog, rd)"
    by (cases "submitTurnStream (json w) handleStreamUpdate
      (post_turn_stream w (session_id s) audio) ?st2") auto
  have body: "turn_body w (session_id s)
        (st\<lparr>isSubmitting := True, status := Some ''Uploading audio...''\<rparr>) =
      (case r of
         Inl e \<Rightarrow> (Some e, handler prog)
       | Inr turn \<Rightarrow>
           (case getSession w (session_id s) of
              Inl e \<Rightarrow> (Some e, handler prog)
            | Inr updatedSession \<Rightarrow>
                announce (session_id s) turn
                  ((handler prog)\<lparr>session := Some updatedSession, error := None\<rparr>)))"
    using assms by (simp add: turn_body_def stop_def c split: sum.splits)
  have guard: "\<not> (\<not> has_session_id st \<or> \<not> isRecording st \<or> isSubmitting st)"
    using assms by (simp add: has_session_id_def)
  show ?thesis
    unfolding handleStopRecording_def Let_def if_not_P [OF guard] assms(1) option.sel body c
      fst_conv snd_conv
    by (cases r; cases "getSession w (session_id s)")
       (simp_all split: prod.splits option.splits)
qed



lemmas ui_defs = handleStopRecording_def has_session_id_def turn_body_def stop_def
  handleStreamUpdate_def announce_def speakMove_def sample_world_def recording_state_def
  idle_state_def session_start_def session_e4_e5_def session_f3_e5_def session_mated_def mv_def
  handleKeyDown_def handleKeyUp_def handleStartRecording_def start_def startNewGame_def
  endsWith_def main_view_def mate_world_def synthesized_def recorderErrorEffect_def offline_def

lemma mate_call:
  "submitTurnStream (table_parse sample_events) handleStreamUpdate
     (ok_response [Chunk (frame js_mate)]) st =
   (Inr (synthesized ev_mate),
    \<lparr>handler = st\<lparr>status := Some ''Complete! Engine replied Qh4#.''\<rparr>,
     finalResult = Some (synthesized ev_mate), console = []\<rparr>,
    Some (Reader False []))"
  by (simp add: run_defs handleStreamUpdate_def synthesized_def)

lemma e4_call:
  "submitTurnStream (table_parse sample_events) handleStreamUpdate
     (ok_response [Chunk (frame js_transcribing), Chunk (frame js_complete)]) st =
   (Inr (synthesized ev_complete),
    \<lparr>handler = st\<lparr>status := Some ''Complete! Engine replied e5.''\<rparr>,
     finalResult = Some (synthesized ev_complete), console = []\<rparr>,
    Some (Reader False []))"
  by (simp add: run_defs handleStreamUpdate_def synthesized_def)

text \<open>
  The touch handlers of the record button are not withheld while it is disabled, and
  \<open>handleStartRecording\<close> has no test of \<open>gameEnded\<close>: after the turn in which the engine
  mates, the start of a touch starts a recording.
\<close>

lemma touch_start_after_mate:
  "gameEnded (handleStopRecording (mate_world (Inr session_mated))
                (recording_state session_f3_e5)) \<and>
   isRecording (dispatch_event (mate_world (Inr session_mated)) TouchStart
                  (handleStopRecording (mate_world (Inr session_mated))
                     (recording_state session_f3_e5)))"
  by (simp add: ui_defs mate_call ev_mate_def blank_def)

text \<open>
  When the microphone is refused, the controller ends with the recorder's text as its
  error, not with the message of what was thrown.
\<close>

lemma refused_microphone:
  "getUserMedia w = Some e \<Longrightarrow>
   handleStartRecording w (idle_state session_start) =
     (idle_state session_start)
       \<lparr>recorderError := Some ''Microphone access denied or unsupported browser.'',
        error := Some ''Microphone access denied or unsupported browser.''\<rparr>"
  by (simp add: handleStartRecording_def has_session_id_def start_def recorderErrorEffect_def
      idle_state_def session_start_def)

section \<open>Properties of submitTurnStream\<close>

text \<open>
  Claim C1: an event whose status is \<open>error\<close>, or that carries an error payload, aborts
  consumption, and the call rejects with the event's error message.
  Line 113 throws that error inside the \<open>try\<close> whose \<open>catch (parseError)\<close> logs what
  it catches and goes on with the next line, so the error never leaves the loop. On the
  stream \<open>transcribing\<close>, \<open>error\<close> the call rejects with the missing-result message; the
  event's own message ends in the console log.
\<close>

theorem error_event_is_swallowed:
  "submitTurnStream (table_parse sample_events) record_update
     (ok_response [Chunk (frame js_transcribing), Chunk (frame js_error)]) [] =
   (Inl (Thrown ''Error'' ''No final result received from server''),
    \<lparr>handler = [ev_transcribing, ev_error], finalResult = None,
     console = [(''data: '' @ js_error, Thrown ''Error'' ''Could not understand audio'')]\<rparr>,
    Some (Reader False []))"
  by (simp add: run_defs)

text \<open>
  Claim C2, as stated, fails: one \<open>transcribing\<close> frame is dispatched when it arrives in
  one chunk, and is not dispatched when its bytes arrive in two chunks. The first chunk
  gives a line with the marker that does not parse, the second a line without the marker.
\<close>

theorem split_frame_not_dispatched:
  "''data: {\"status\":\"tran'' @ ''scribing\"}\<newline>'' = frame js_transcribing \<and>
   handler (fst (snd (submitTurnStream (table_parse sample_events) record_update
     (ok_response [Chunk (frame js_transcribing)]) []))) = [ev_transcribing] \<and>
   handler (fst (snd (submitTurnStream (table_parse sample_events) record_update
     (ok_response [Chunk ''data: {\"status\":\"tran'', Chunk ''scribing\"}\<newline>'']) []))) = []"
  by (simp add: run_defs)

text \<open>
  Claim C2, amended: each chunk is split into lines on its own, and the handler is applied
  once to every frame of every chunk, in order of arrival (chunk after chunk, line after
  line). When every chunk but the last is empty or ends with a newline, so that no frame is
  cut by a chunk boundary, these are the frames of the whole text that the server pushed.
\<close>

theorem frames_within_chunks_dispatched:
  assumes "ok resp" and "body resp = Some (map Chunk cs)"
  shows "handler (fst (snd (submitTurnStream JSON_parse onUpdate (Responded resp) h))) =
           foldl (\<lambda>s u. onUpdate u s) h (concat (map (frames JSON_parse) cs)) \<and>
         ((\<forall>c \<in> set (butlast cs). c = [] \<or> last c = newline) \<longrightarrow>
          handler (fst (snd (submitTurnStream JSON_parse onUpdate (Responded resp) h))) =
            foldl (\<lambda>s u. onUpdate u s) h (frames JSON_parse (concat cs)))"
  using submit_handler [OF assms, of JSON_parse onUpdate h]
  by (simp add: observed_def frames_concat)

text \<open>
  Claim C2, an instance: two frames in two chunks, each ending with its newline.
\<close>

theorem frames_within_chunks_dispatched_witness:
  "handler (fst (snd (submitTurnStream (table_parse sample_events) record_update
     (ok_response [Chunk (frame js_transcribing), Chunk (frame js_complete)]) []))) =
   [ev_transcribing, ev_complete] \<and>
   frames (table_parse sample_events) (concat [frame js_transcribing, frame js_complete]) =
   [ev_transcribing, ev_complete]"
  using frames_within_chunks_dispatched
    [of "\<lparr>ok = True, statusText = ''OK'', detail = None,
          body = Some [Chunk (frame js_transcribing), Chunk (frame js_complete)]\<rparr>"
        "[frame js_transcribing, frame js_complete]"
        "table_parse sample_events" record_update "[]"]
  by (simp add: run_defs observed_defs)

text \<open>
  Claim C5: when no event observed on the stream has the status \<open>complete\<close> and a position,
  the call does not return a Turn Result. If the stream ended, it rejects with the
  missing-result error; if a read failed first, it rejects with that failure (as the outer
  \<open>catch\<close> throws it).
\<close>

theorem missing_result_rejected:
  assumes "ok resp" and "body resp = Some src"
    and "\<forall>u \<in> set (observed JSON_parse src). \<not> (su_status u = Complete \<and> truthy (su_fen u))"
  shows "fst (submitTurnStream JSON_parse onUpdate (Responded resp) h) =
           (case failure_of src of
              None \<Rightarrow> Inl (Thrown ''Error'' ''No final result received from server'')
            | Some e \<Rightarrow> Inl (rethrow e))"
proof -
  have "foldl keep_final None (observed JSON_parse src) = None"
    using assms(3) by (intro keep_final_none) (simp add: terminal_success_def)
  then show ?thesis
    by (simp add: submit_result [OF assms(1,2)] split: option.splits)
qed

text \<open>
  Claim C5, an instance: \<open>transcribing\<close>, then \<open>complete\<close> without a position, then the end
  of the stream.
\<close>

theorem missing_result_rejected_witness:
  "fst (submitTurnStream (table_parse sample_events) record_update
     (ok_response [Chunk (frame js_transcribing), Chunk (frame js_complete_bare)]) []) =
   Inl (Thrown ''Error'' ''No final result received from server'')"
  using missing_result_rejected
    [of "\<lparr>ok = True, statusText = ''OK'', detail = None,
          body = Some [Chunk (frame js_transcribing), Chunk (frame js_complete_bare)]\<rparr>"
        "[Chunk (frame js_transcribing), Chunk (frame js_complete_bare)]"
        "table_parse sample_events" record_update "[]"]
  by (simp add: run_defs observed_defs)

text \<open>
  Claim C9: the reader obtained from the response body holds the lock, and whatever the
  stream does (it ends, a read fails, the request is aborted) the reader that the call
  leaves behind has released it.
\<close>

theorem reader_lock_released:
  assumes "ok resp" and "body resp = Some src"
  shows "locked (getReader src) \<and>
         (\<exists>rd. snd (snd (submitTurnStream JSON_parse onUpdate (Responded resp) h)) = Some rd \<and>
               \<not> locked rd)"
  using submit_reader [OF assms] by (simp add: getReader_def)

text \<open>
  Claim C9, an instance: the request is aborted while the second read is pending.
\<close>

theorem reader_lock_released_witness:
  "submitTurnStream (table_parse sample_events) record_update
     (ok_response [Chunk (frame js_transcribing),
                   ReadFails (Thrown ''AbortError'' ''The user aborted a request.'')]) [] =
   (Inl (Thrown ''Error'' ''Request timed out. Please try again with a shorter recording.''),
    \<lparr>handler = [ev_transcribing], finalResult = None, console = []\<rparr>,
    Some (Reader False []))"
  using reader_lock_released
    [of "\<lparr>ok = True, statusText = ''OK'', detail = None,
          body = Some [Chunk (frame js_transcribing),
                       ReadFails (Thrown ''AbortError'' ''The user aborted a request.'')]\<rparr>"
        "[Chunk (frame js_transcribing),
          ReadFails (Thrown ''AbortError'' ''The user aborted a request.'')]"
        "table_parse sample_events" record_update "[]"]
  by (simp add: run_defs)

text \<open>
  Claim C6: a line that parses to an event with the status \<open>complete\<close> and a non-empty
  position is dispatched and sets \<open>finalResult\<close> to the transcript, the two moves and the
  position of that event, with an empty list of moves. Every result that the call returns
  has an empty list of moves; and when such an event is observed on a stream that ends, the
  call returns the result built from the last one.
\<close>

theorem complete_with_fen_synthesized:
  assumes "startsWith line ''data: ''" and "JSON_parse (drop 6 line) = Inr u"
    and "su_status u = Complete" and "su_fen u = Some position" and "position \<noteq> []"
  shows "handler (process_line JSON_parse onUpdate st line) = onUpdate u (handler st) \<and>
         finalResult (process_line JSON_parse onUpdate st line) =
           Some \<lparr>tr_transcript = su_transcript u, tr_user_move = su_user_move u,
                 tr_engine_move = su_engine_move u, tr_fen = position, tr_moves = []\<rparr> \<and>
         (\<forall>fo h r. fst (submitTurnStream JSON_parse onUpdate fo h) = Inr r \<longrightarrow> tr_moves r = []) \<and>
         (\<forall>(resp::response) src h. ok resp \<and> body resp = Some src \<and> failure_of src = None \<and>
              u \<in> set (observed JSON_parse src) \<longrightarrow>
            fst (submitTurnStream JSON_parse onUpdate (Responded resp) h) =
              Inr (synthesized (last (filter terminal_success (observed JSON_parse src)))))"
proof (intro conjI allI impI)
  show "handler (process_line JSON_parse onUpdate st line) = onUpdate u (handler st)"
    using assms(1,2) by (simp add: process_line_handler parsed_line_def)
  show "finalResult (process_line JSON_parse onUpdate st line) =
           Some \<lparr>tr_transcript = su_transcript u, tr_user_move = su_user_move u,
                 tr_engine_move = su_engine_move u, tr_fen = position, tr_moves = []\<rparr>"
    using assms
    by (simp add: process_line_final parsed_line_def keep_final_def terminal_success_def
        synthesized_def)
next
  fix fo h r
  assume "fst (submitTurnStream JSON_parse onUpdate fo h) = Inr r"
  then show "tr_moves r = []"
    by (rule submit_moves_empty)
next
  fix resp :: response and src h
  assume a: "ok resp \<and> body resp = Some src \<and> failure_of src = None \<and>
             u \<in> set (observed JSON_parse src)"
  have "terminal_success u"
    using assms(3-5) by (simp add: terminal_success_def)
  with a have "filter terminal_success (observed JSON_parse src) \<noteq> []"
    by (auto simp: filter_empty_conv)
  with a show "fst (submitTurnStream JSON_parse onUpdate (Responded resp) h) =
      Inr (synthesized (last (filter terminal_success (observed JSON_parse src))))"
    by (simp add: submit_result keep_final_last)
qed

text \<open>
  Claim C6, an instance: the \<open>complete\<close> event of the turn e4, e5.
\<close>

theorem complete_with_fen_synthesized_witness:
  "finalResult (process_line (table_parse sample_events) record_update
      \<lparr>handler = [], finalResult = None, console = []\<rparr> (''data: '' @ js_complete)) =
     Some \<lparr>tr_transcript = Some ''pawn to e4'',
           tr_user_move = Some \<lparr>uci = ''e2e4'', san = ''e4''\<rparr>,
           tr_engine_move = Some \<lparr>uci = ''e7e5'', san = ''e5''\<rparr>,
           tr_fen = ''rnbqkbnr/pppp1ppp/8/4p3/4P3/8/PPPP1PPP/RNBQKBNR w KQkq - 0 2'',
           tr_moves = []\<rparr> \<and>
   fst (submitTurnStream (table_parse sample_events) record_update
          (ok_response [Chunk (frame js_transcribing), Chunk (frame js_complete)]) []) =
     Inr (synthesized ev_complete)"
  using complete_with_fen_synthesized
    [of "''data: '' @ js_complete" "table_parse sample_events" ev_complete
        "''rnbqkbnr/pppp1ppp/8/4p3/4P3/8/PPPP1PPP/RNBQKBNR w KQkq - 0 2''"
        record_update "\<lparr>handler = [], finalResult = None, console = []\<rparr>"]
  by (simp add: run_defs synthesized_def)

text \<open>
  Claim C10: a line that parses to an event with the status \<open>complete\<close> and no position
  (absent, or the empty string) is dispatched to the handler and leaves \<open>finalResult\<close> as
  it was. When such an event is observed on a stream, the handler state that the call leaves
  is the one obtained by applying the handler to the events before it, to it, and to the
  events after it, and the \<open>finalResult\<close> that the call leaves is what the other events
  alone give. If the stream ends and no \<open>complete\<close> event with a position is observed, the
  call rejects with the missing-result error.
\<close>

theorem complete_without_fen_not_synthesized:
  assumes "startsWith line ''data: ''" and "JSON_parse (drop 6 line) = Inr u"
    and "su_status u = Complete" and "\<not> truthy (su_fen u)"
  shows "handler (process_line JSON_parse onUpdate st line) = onUpdate u (handler st) \<and>
         finalResult (process_line JSON_parse onUpdate st line) = finalResult st \<and>
         (\<forall>(resp::response) src h before after.
            ok resp \<and> body resp = Some src \<and> observed JSON_parse src = before @ u # after \<longrightarrow>
            handler (fst (snd (submitTurnStream JSON_parse onUpdate (Responded resp) h))) =
              foldl (\<lambda>s v. onUpdate v s)
                (onUpdate u (foldl (\<lambda>s v. onUpdate v s) h before)) after \<and>
            finalResult (fst (snd (submitTurnStream JSON_parse onUpdate (Responded resp) h))) =
              foldl keep_final None (before @ after)) \<and>
         (\<forall>(resp::response) src h. ok resp \<and> body resp = Some src \<and> failure_of src = None \<and>
              u \<in> set (observed JSON_parse src) \<and>
              (\<forall>u' \<in> set (observed JSON_parse src).
                 \<not> (su_status u' = Complete \<and> truthy (su_fen u'))) \<longrightarrow>
            fst (submitTurnStream JSON_parse onUpdate (Responded resp) h) =
              Inl (Thrown ''Error'' ''No final result received from server''))"
proof (intro conjI allI impI)
  show "handler (process_line JSON_parse onUpdate st line) = onUpdate u (handler st)"
    using assms(1,2) by (simp add: process_line_handler parsed_line_def)
  show "finalResult (process_line JSON_parse onUpdate st line) = finalResult st"
    using assms
    by (simp add: process_line_final parsed_line_def keep_final_def terminal_success_def)
next
  fix resp :: response and src h before after
  assume a: "ok resp \<and> body resp = Some src \<and> observed JSON_parse src = before @ u # after"
  then show "handler (fst (snd (submitTurnStream JSON_parse onUpdate (Responded resp) h))) =
      foldl (\<lambda>s v. onUpdate v s) (onUpdate u (foldl (\<lambda>s v. onUpdate v s) h before)) after"
    by (simp add: submit_handler)
  have "keep_final fr u = fr" for fr
    using assms(3,4) by (simp add: keep_final_def terminal_success_def)
  with a show "finalResult (fst (snd (submitTurnStream JSON_parse onUpdate (Responded resp) h))) =
      foldl keep_final None (before @ after)"
    by (simp add: submit_final)
next
  fix resp :: response and src h
  assume a: "ok resp \<and> body resp = Some src \<and> failure_of src = None \<and>
      u \<in> set (observed JSON_parse src) \<and>
      (\<forall>u' \<in> set (observed JSON_parse src). \<not> (su_status u' = Complete \<and> truthy (su_fen u')))"
  then have "foldl keep_final None (observed JSON_parse src) = None"
    by (intro keep_final_none) (simp add: terminal_success_def)
  with a show "fst (submitTurnStream JSON_parse onUpdate (Responded resp) h) =
      Inl (Thrown ''Error'' ''No final result received from server'')"
    by (simp add: submit_result)
qed

text \<open>
  Claim C10, an instance: \<open>transcribing\<close> and a bare \<open>complete\<close> in one chunk. The call
  leaves a handler that received both events, no \<open>finalResult\<close>, and rejects.
\<close>

theorem complete_without_fen_not_synthesized_witness:
  "process_line (table_parse sample_events) record_update
      \<lparr>handler = [ev_transcribing], finalResult = None, console = []\<rparr>
      (''data: '' @ js_complete_bare) =
     \<lparr>handler = [ev_transcribing, ev_complete_bare], finalResult = None, console = []\<rparr> \<and>
   observed (table_parse sample_events) [Chunk (frame js_transcribing @ frame js_complete_bare)] =
     [ev_transcribing] @ ev_complete_bare # [] \<and>
   submitTurnStream (table_parse sample_events) record_update
          (ok_response [Chunk (frame js_transcribing @ frame js_complete_bare)]) [] =
     (Inl (Thrown ''Error'' ''No final result received from server''),
      \<lparr>handler = [ev_transcribing, ev_complete_bare], finalResult = None, console = []\<rparr>,
      Some (Reader False []))"
  using complete_without_fen_not_synthesized
    [of "''data: '' @ js_complete_bare" "table_parse sample_events" ev_complete_bare
        record_update "\<lparr>handler = [ev_transcribing], finalResult = None, console = []\<rparr>"]
  by (simp add: run_defs observed_defs split_nl_append_newline)

section \<open>Properties of the controller\<close>

text \<open>
  Claim C4, as stated, fails at the status \<open>error\<close>: the \<open>switch\<close> has no case for it,
  so the handler sets no message and leaves the state as it is (here with no status at all).
\<close>

theorem error_status_sets_no_message:
  "handleStreamUpdate ev_error (idle_state session_start) = idle_state session_start \<and>
   status (handleStreamUpdate ev_error (idle_state session_start)) = None"
  by (simp add: handleStreamUpdate_def ev_error_def blank_def idle_state_def)

text \<open>
  Claim C4, amended: for each of the six statuses other than \<open>error\<close> the handler sets a
  non-empty status message; for \<open>error\<close> it changes nothing.
\<close>

theorem status_message_nonempty:
  "(su_status u \<noteq> Error \<longrightarrow> (\<exists>m. status (handleStreamUpdate u st) = Some m \<and> m \<noteq> [])) \<and>
   (su_status u = Error \<longrightarrow> handleStreamUpdate u st = st)"
  by (simp add: handleStreamUpdate_def split: Status.splits)

text \<open>
  Claim C4, an instance: the status \<open>transcribing\<close>.
\<close>

theorem status_message_nonempty_witness:
  "su_status ev_transcribing \<noteq> Error \<and>
   status (handleStreamUpdate ev_transcribing (idle_state session_start)) =
     Some ''Transcribing audio...''"
  using status_message_nonempty [of ev_transcribing "idle_state session_start"]
  by (simp add: handleStreamUpdate_def ev_transcribing_def blank_def)

text \<open>
  Claim C8: when \<open>handleStopRecording\<close> runs (a session, recording, not submitting, audio
  captured) and \<open>submitTurnStream\<close> resolves, the session the controller ends with is the
  one that \<open>getSession\<close> returned, whole; when that fetch fails the session is the one
  it had. In neither case does it depend on the streamed result.
\<close>

theorem session_replaced_by_refetch:
  assumes "session st = Some s" and "session_id s \<noteq> []" and "isRecording st"
    and "\<not> isSubmitting st" and "recorded w = Some audio"
    and "fst (submitTurnStream (json w) handleStreamUpdate
               (post_turn_stream w (session_id s) audio) h) = Inr turn"
  shows "session (handleStopRecording w st) =
           (case getSession w (session_id s) of
              Inr updatedSession \<Rightarrow> Some updatedSession
            | Inl e \<Rightarrow> Some s)"
proof -
  let ?st2 = "st\<lparr>isSubmitting := True, status := Some ''Uploading audio...'',
                 isRecording := False\<rparr>"
  let ?call = "submitTurnStream (json w) handleStreamUpdate
                 (post_turn_stream w (session_id s) audio) ?st2"
  have res: "fst ?call = Inr turn"
    using assms(6) submit_result_same by metis
  obtain x where st3: "handler (fst (snd ?call)) = ?st2\<lparr>status := x\<rparr>"
    using submit_ui_state by blast
  show ?thesis
  proof (cases "getSession w (session_id s)")
    case (Inl e)
    then show ?thesis
      by (simp add: handleStopRecording_runs [OF assms(1-5)] Let_def res st3 assms(1))
  next
    case (Inr updatedSession)
    let ?st = "(handler (fst (snd ?call)))\<lparr>session := Some updatedSession, error := None\<rparr>"
    have "session (snd (announce (session_id s) turn ?st)) = Some updatedSession"
      by (simp add: announce_keeps)
    then show ?thesis
      by (cases "announce (session_id s) turn ?st"; simp only:
          handleStopRecording_runs [OF assms(1-5)] Let_def res Inr sum.case prod.case snd_conv)
         (simp split: option.splits)
  qed
qed

text \<open>
  Claim C8, an instance: the turn e4, e5 on a new game.
\<close>

theorem session_replaced_by_refetch_witness:
  "session (handleStopRecording
      (sample_world [Chunk (frame js_transcribing), Chunk (frame js_complete)]
         (Inr session_e4_e5))
      (recording_state session_start)) = Some session_e4_e5"
  using session_replaced_by_refetch
    [of "recording_state session_start" session_start
        "sample_world [Chunk (frame js_transcribing), Chunk (frame js_complete)]
           (Inr session_e4_e5)"
        "''webm''" "recording_state session_start" "synthesized ev_complete"]
  by (simp add: ui_defs e4_call)




end
